theory Spec2Isabelle
  imports Main "HOL-Library.AList"
begin

section \<open>The query pipeline of \<open>backend/cli_query.py\<close>\<close>

text \<open>
  The program talks to three outside services: a Redis server (the shared cache), the
  language-model service behind \<open>get_sql_from_llm\<close>, and a MySQL server. None of them
  is part of the file, so the model takes their answers as data: an \<open>env\<close> says how
  each of them answers during one call of \<open>query_with_cache\<close>. One call makes at most
  one \<open>ping\<close>, one \<open>get\<close>, one \<open>setex\<close>, one generator call, one \<open>connect\<close> and one
  \<open>cursor.execute\<close>, so one answer per service and call describes every behaviour.

  Python strings are modelled as \<open>string\<close>, one \<open>char\<close> per code point, so that
  \<open>length\<close> is Python's \<open>len\<close>. The progress messages that \<open>query_with_cache\<close> and
  \<open>execute_sql\<close> print are left out; what they do to the services is recorded
  as a list of events instead.
\<close>

subsection \<open>Data\<close>

text \<open>
  A row of a \<open>dictionary=True\<close> cursor is a dict from column name to value; the order
  of its keys matters to the formatter, so it is an association list. The values are
  whatever the driver returns: their type is the parameter \<open>'v\<close>.
\<close>

type_synonym 'v row = "(string \<times> 'v) list"

record 'v env =
  redis_ping :: bool
  redis_get_ok :: bool
  redis_setex_ok :: bool
  get_sql_from_llm :: "string \<Rightarrow> string option"
  mysql_connect :: bool
  cursor_execute :: "string \<Rightarrow> 'v row list option"

text \<open>
  \<open>redis_ping\<close>: \<open>client.ping()\<close> returns (line 40); \<open>redis_get_ok\<close> and
  \<open>redis_setex_ok\<close>: \<open>get\<close> (line 85) and \<open>setex\<close> (line 109) return rather than
  raise; \<open>get_sql_from_llm p = None\<close>: the generator raises on \<open>p\<close>;
  \<open>mysql_connect\<close>: \<open>mysql.connector.connect\<close> returns (line 52);
  \<open>cursor_execute q = None\<close>: \<open>cursor.execute(q)\<close> or \<open>fetchall()\<close> raises,
  \<open>Some rows\<close>: \<open>fetchall()\<close> returns \<open>rows\<close>.
\<close>

text \<open>
  The mutable state: the module-level dict \<open>mock_cache\<close> (line 47) and the contents of
  the Redis database, each value stored with the time-to-live given to \<open>setex\<close>.
  Expiry and other clients of the Redis server are not modelled: between two calls the
  Redis contents stay as the last call left them.
\<close>

record state =
  mock_cache :: "string \<rightharpoonup> string"
  redis_db :: "string \<rightharpoonup> nat \<times> string"

datatype event =
    RedisGet string
  | RedisSetex string nat string
  | MockLookup string
  | MockStore string string
  | LlmCall string
  | DbConnectFailed
  | DbConnected
  | DbExecute string
  | DbClosed

text \<open>The dict that \<open>query_with_cache\<close> returns (lines 126 to 131).\<close>

record 'v results =
  sql :: string
  data :: "'v row list"
  cache_hit :: bool
  count :: nat

subsection \<open>\<open>get_redis_client\<close>, \<open>get_db_connection\<close>, \<open>execute_sql\<close>\<close>

text \<open>
  \<open>get_redis_client\<close> (lines 31 to 44) returns a client when the ping succeeds and
  \<open>None\<close> otherwise; the model returns whether a client came back.
  \<open>get_db_connection\<close> (lines 49 to 56) likewise.
\<close>

definition get_redis_client :: "'v env \<Rightarrow> bool" where
  "get_redis_client e = redis_ping e"

definition get_db_connection :: "'v env \<Rightarrow> bool \<times> event list" where
  "get_db_connection e =
     (if mysql_connect e then (True, [DbConnected]) else (False, [DbConnectFailed]))"

text \<open>
  \<open>execute_sql\<close> (lines 58 to 73). \<open>conn.close()\<close> is line 69, inside the \<open>try\<close>
  and after \<open>fetchall\<close>; the \<open>except\<close> branch (lines 71 to 73) prints and returns
  \<open>None\<close>.
\<close>

definition execute_sql :: "'v env \<Rightarrow> string \<Rightarrow> 'v row list option \<times> event list" where
  "execute_sql e q =
     (case get_db_connection e of
        (False, t) \<Rightarrow> (None, t)
      | (True, t) \<Rightarrow>
          (case cursor_execute e q of
             Some rows \<Rightarrow> (Some rows, t @ [DbExecute q, DbClosed])
           | None \<Rightarrow> (None, t @ [DbExecute q])))"

subsection \<open>\<open>query_with_cache\<close>\<close>

text \<open>Python's truth value of \<open>sql\<close>: \<open>None\<close> and the empty string are false.\<close>

definition truthy :: "string option \<Rightarrow> bool" where
  "truthy v = (case v of None \<Rightarrow> False | Some q \<Rightarrow> q \<noteq> [])"

definition cache_key :: "string \<Rightarrow> string" where
  "cache_key prompt = ''cache:'' @ prompt"

text \<open>
  Step 1 (lines 83 to 94): the value of \<open>sql\<close> and of \<open>cache_hit\<close> after the lookup.
  When \<open>get\<close> raises, \<open>sql\<close> keeps its initial \<open>None\<close>.
\<close>

definition check_cache ::
  "'v env \<Rightarrow> bool \<Rightarrow> string \<Rightarrow> state \<Rightarrow> string option \<times> bool \<times> event list" where
  "check_cache e redis_client prompt s =
     (if redis_client then
        (if redis_get_ok e then
           (let v = map_option snd (redis_db s (cache_key prompt))
            in (v, truthy v, [RedisGet (cache_key prompt)]))
         else (None, False, [RedisGet (cache_key prompt)]))
      else
        (case mock_cache s prompt of
           Some v \<Rightarrow> (Some v, True, [MockLookup prompt])
         | None \<Rightarrow> (None, False, [MockLookup prompt])))"

text \<open>
  The store of step 2 (lines 107 to 115). A \<open>setex\<close> that raises is caught and
  changes nothing.
\<close>

definition store_cache ::
  "'v env \<Rightarrow> bool \<Rightarrow> string \<Rightarrow> string \<Rightarrow> state \<Rightarrow> state \<times> event list" where
  "store_cache e redis_client prompt q s =
     (if redis_client then
        (if redis_setex_ok e then
           (s\<lparr>redis_db := (redis_db s)(cache_key prompt \<mapsto> (3600, q))\<rparr>,
            [RedisSetex (cache_key prompt) 3600 q])
         else (s, [RedisSetex (cache_key prompt) 3600 q]))
      else
        (s\<lparr>mock_cache := (mock_cache s)(prompt \<mapsto> q)\<rparr>, [MockStore prompt q]))"

text \<open>Step 3 (lines 119 to 131).\<close>

definition run_query ::
  "'v env \<Rightarrow> string \<Rightarrow> bool \<Rightarrow> 'v results option \<times> event list" where
  "run_query e q hit =
     (case execute_sql e q of
        (None, t) \<Rightarrow> (None, t)
      | (Some rows, t) \<Rightarrow>
          (Some \<lparr>sql = q, data = rows, cache_hit = hit, count = length rows\<rparr>, t))"

text \<open>
  The whole function (lines 75 to 131): the result (\<open>None\<close> is Python's \<open>None\<close>), the
  state afterwards and the events in order. The generator is taken to return a
  string when it returns. In the branch where \<open>sql\<close> is true it is some string, so
  the last case below is never reached.
\<close>

definition query_with_cache ::
  "'v env \<Rightarrow> string \<Rightarrow> state \<Rightarrow> 'v results option \<times> state \<times> event list" where
  "query_with_cache e prompt s =
     (let redis_client = get_redis_client e
      in case check_cache e redis_client prompt s of
           (v, hit, t1) \<Rightarrow>
             if \<not> truthy v then
               (case get_sql_from_llm e prompt of
                  None \<Rightarrow> (None, s, t1 @ [LlmCall prompt])
                | Some q \<Rightarrow>
                    (case store_cache e redis_client prompt q s of
                       (s', t2) \<Rightarrow>
                         (case run_query e q hit of
                            (r, t3) \<Rightarrow> (r, s', t1 @ [LlmCall prompt] @ t2 @ t3))))
             else
               (case v of
                  Some q \<Rightarrow> (case run_query e q hit of (r, t3) \<Rightarrow> (r, s, t1 @ t3))
                | None \<Rightarrow> (None, s, t1)))"

subsection \<open>\<open>print_results\<close>\<close>

text \<open>
  The lines of the table are strings. The messages whose text is not ASCII are
  constructors: \<open>NoData\<close> is line 136, \<open>EmptyResult\<close> is line 140, \<open>Summary n hit\<close>
  is line 175 with the count \<open>n\<close> and the cache marker shown when \<open>hit\<close>. Those of
  \<open>main\<close>: \<open>QueryFailed\<close> is line 292, \<open>MySqlOk\<close> and \<open>MySqlFailed\<close> are lines 239
  and 242, \<open>RedisOk\<close> is line 248 and \<open>RedisFallback\<close> is line 250.
\<close>

datatype printed =
    NoData
  | EmptyResult
  | Text string
  | Summary nat bool
  | QueryFailed
  | MySqlOk
  | MySqlFailed
  | RedisOk
  | RedisFallback

text \<open>
  \<open>str(row.get(col, ''))\<close>: the stringified value, the empty string for a missing
  column. \<open>str\<close> is Python's builtin on the driver's values, a parameter here.
\<close>

definition cell :: "('v \<Rightarrow> string) \<Rightarrow> 'v row \<Rightarrow> string \<Rightarrow> string" where
  "cell str row col = (case map_of row col of Some v \<Rightarrow> str v | None \<Rightarrow> [])"

text \<open>
  The loop of lines 149 to 153 fills the dict \<open>col_widths\<close>, here an association list
  in insertion order. \<open>max\<close> of line 152 is taken over one length per row of the
  non-empty \<open>data\<close> (line 139 returned otherwise).
\<close>

fun col_widths ::
  "('v \<Rightarrow> string) \<Rightarrow> 'v row list \<Rightarrow> string list \<Rightarrow> (string \<times> nat) list \<Rightarrow> (string \<times> nat) list" where
  "col_widths str rows [] cw = cw"
| "col_widths str rows (col # cols) cw =
     (let header_len = length col;
          max_data_len = Max (set (map (\<lambda>row. length (cell str row col)) rows))
      in col_widths str rows cols (AList.update col (max header_len max_data_len + 2) cw))"

text \<open>
  \<open>col_widths[col]\<close>. Every column read has been written by the loop
  (\<open>col_widths_lookup\<close> below), so the \<open>KeyError\<close> branch is never taken.
\<close>

definition width :: "(string \<times> nat) list \<Rightarrow> string \<Rightarrow> nat" where
  "width cw col = (case map_of cw col of Some w \<Rightarrow> w | None \<Rightarrow> 0)"

text \<open>
  The format specifications \<open>^n\<close> and \<open><n\<close> on a string: pad with spaces up to \<open>n\<close>,
  never cut. Centring puts the smaller half of the padding on the left.
\<close>

definition center :: "nat \<Rightarrow> string \<Rightarrow> string" where
  "center n x =
     (let pad = n - length x; left = pad div 2
      in replicate left CHR '' '' @ x @ replicate (pad - left) CHR '' '')"

definition ljust :: "nat \<Rightarrow> string \<Rightarrow> string" where
  "ljust n x = x @ replicate (n - length x) CHR '' ''"

text \<open>Lines 160 to 162 and lines 168 to 171; \<open>[:n]\<close> with \<open>n \<ge> 0\<close> is \<open>take n\<close>.\<close>

definition header :: "(string \<times> nat) list \<Rightarrow> string list \<Rightarrow> string" where
  "header cw columns =
     fold (\<lambda>col h. h @ '' '' @ center (width cw col - 2) col @ '' |'') columns ''|''"

definition data_line ::
  "('v \<Rightarrow> string) \<Rightarrow> (string \<times> nat) list \<Rightarrow> string list \<Rightarrow> 'v row \<Rightarrow> string" where
  "data_line str cw columns row =
     fold (\<lambda>col line.
             let val = take (width cw col - 2) (cell str row col)
             in line @ '' '' @ ljust (width cw col - 2) val @ '' |'')
          columns ''|''"

definition print_results :: "('v \<Rightarrow> string) \<Rightarrow> 'v results option \<Rightarrow> printed list" where
  "print_results str res =
     (case res of
        None \<Rightarrow> [NoData]
      | Some r \<Rightarrow>
          (case data r of
             [] \<Rightarrow> [EmptyResult]
           | row0 # _ \<Rightarrow>
               (let rows = data r;
                    columns = map fst row0;
                    cw = col_widths str rows columns [];
                    total_width = sum_list (map snd cw) + length columns + 1;
                    rule = Text (replicate total_width CHR ''='')
                in [rule, Text (header cw columns), rule]
                   @ map (\<lambda>row. Text (data_line str cw columns row)) rows
                   @ [rule, Summary (count r) (cache_hit r)])))"

subsection \<open>The interactive loop\<close>

text \<open>
  One natural-language query of the loop (lines 287 to 292). The dict that
  \<open>query_with_cache\<close> returns has four keys, so it is true in \<open>if results:\<close>.
\<close>

definition main_query ::
  "('v \<Rightarrow> string) \<Rightarrow> 'v env \<Rightarrow> string \<Rightarrow> state \<Rightarrow> printed list \<times> state \<times> event list" where
  "main_query str e user_input s =
     (case query_with_cache e user_input s of
        (Some r, s', t) \<Rightarrow> (print_results str (Some r), s', t)
      | (None, s', t) \<Rightarrow> ([QueryFailed], s', t))"

text \<open>
  The queries of one process in order, each with the answers the services give while
  it runs. The other commands of the loop do not touch either cache.
\<close>

fun session ::
  "('v env \<times> string) list \<Rightarrow> state \<Rightarrow> ('v results option \<times> event list) list \<times> state" where
  "session [] s = ([], s)"
| "session ((e, prompt) # calls) s =
     (case query_with_cache e prompt s of
        (r, s', t) \<Rightarrow>
          (case session calls s' of (rs, s'') \<Rightarrow> ((r, t) # rs, s'')))"

text \<open>
  \<open>main\<close> (lines 232 to 298) on the natural-language queries \<open>calls\<close>: \<open>e0\<close> is how
  the services answer at startup, \<open>rdb\<close> what the Redis database holds then. The
  startup probe of Redis (line 246) only chooses a message; its client is not passed
  on. \<open>mock_cache\<close> is empty in a new process (line 47).
\<close>

definition main ::
  "'v env \<Rightarrow> ('v env \<times> string) list \<Rightarrow> (string \<rightharpoonup> nat \<times> string) \<Rightarrow>
     printed list \<times> ('v results option \<times> event list) list \<times> state" where
  "main e0 calls rdb =
     (let s0 = \<lparr>mock_cache = Map.empty, redis_db = rdb\<rparr>
      in case get_db_connection e0 of
           (False, _) \<Rightarrow> ([MySqlFailed], [], s0)
         | (True, _) \<Rightarrow>
             (let redis_client = get_redis_client e0;
                  banner = [MySqlOk, if redis_client then RedisOk else RedisFallback]
              in case session calls s0 of (rs, s') \<Rightarrow> (banner, rs, s')))"

subsection \<open>Reading a trace\<close>

text \<open>Which service an event belongs to, and the cache key it names.\<close>

fun redis_event :: "event \<Rightarrow> bool" where
  "redis_event (RedisGet k) = True"
| "redis_event (RedisSetex k ttl q) = True"
| "redis_event ev = False"

fun mock_event :: "event \<Rightarrow> bool" where
  "mock_event (MockLookup k) = True"
| "mock_event (MockStore k q) = True"
| "mock_event ev = False"

fun store_event :: "event \<Rightarrow> bool" where
  "store_event (RedisSetex k ttl q) = True"
| "store_event (MockStore k q) = True"
| "store_event ev = False"

fun db_event :: "event \<Rightarrow> bool" where
  "db_event DbConnectFailed = True"
| "db_event DbConnected = True"
| "db_event (DbExecute q) = True"
| "db_event DbClosed = True"
| "db_event ev = False"

fun event_key :: "event \<Rightarrow> string list" where
  "event_key (RedisGet k) = [k]"
| "event_key (RedisSetex k ttl q) = [k]"
| "event_key (MockLookup k) = [k]"
| "event_key (MockStore k q) = [k]"
| "event_key ev = []"

text \<open>
  The display width in the words of the specification (section 4.4): the larger of
  the length of the column name and the longest stringified value of the column, plus
  the padding 2. It is compared with what the loop of \<open>col_widths\<close> stores.
\<close>

definition display_width :: "('v \<Rightarrow> string) \<Rightarrow> 'v row list \<Rightarrow> string \<Rightarrow> nat" where
  "display_width str rows col =
     max (length col) (Max (set (map (\<lambda>row. length (cell str row col)) rows))) + 2"

section \<open>Properties\<close>

lemmas pipeline_defs =
  query_with_cache_def check_cache_def store_cache_def run_query_def execute_sql_def
  get_db_connection_def get_redis_client_def truthy_def cache_key_def

subsection \<open>The executor\<close>

text \<open>
  C4. Claim: whenever \<open>execute_sql\<close> has opened a connection, the connection is released
  before the call returns, on the success path and on the statement-failure path.
  The code closes it on the success path only. With a connection that opens and a
  statement on which \<open>cursor.execute\<close> raises, the call returns \<open>None\<close> and its events
  are the connection and the statement: \<open>conn.close()\<close> is never reached.
\<close>

theorem execute_sql_failure_keeps_connection:
  "execute_sql
     (\<lparr>redis_ping = False, redis_get_ok = False, redis_setex_ok = False,
       get_sql_from_llm = Map.empty, mysql_connect = True,
       cursor_execute = Map.empty\<rparr> :: string env)
     ''SELEC 1''
   = (None, [DbConnected, DbExecute ''SELEC 1''])"
  by (simp add: execute_sql_def get_db_connection_def)

text \<open>In general: an opened connection is closed exactly when the statement succeeds.\<close>

lemma execute_sql_closes_iff:
  "DbConnected \<in> set (snd (execute_sql e q)) \<Longrightarrow>
     (DbClosed \<in> set (snd (execute_sql e q))) = (cursor_execute e q \<noteq> None)"
  by (auto simp: execute_sql_def get_db_connection_def split: if_splits option.splits)

text \<open>
  C6. A statement that executes without failing and returns no rows gives the result
  \<open>data = []\<close>, \<open>count = 0\<close>, which is not the failure value \<open>None\<close>, and both the
  formatter and the loop print the empty-result message for it, not a failure message.
\<close>

theorem empty_result_is_not_failure:
  assumes "query_with_cache e prompt s = (r, s', t)"
    and "DbExecute q \<in> set t"
    and "cursor_execute e q = Some []"
  shows "execute_sql e q = (Some [], [DbConnected, DbExecute q, DbClosed])
       \<and> r \<noteq> None
       \<and> map_option sql r = Some q
       \<and> map_option data r = Some []
       \<and> map_option count r = Some 0
       \<and> print_results str r = [EmptyResult]
       \<and> fst (main_query str e prompt s) = [EmptyResult]"
  using assms
  by (auto simp: pipeline_defs main_query_def print_results_def Let_def
           split: if_splits option.splits prod.splits)

theorem empty_result_is_not_failure_witness:
  "query_with_cache
     (\<lparr>redis_ping = False, redis_get_ok = True, redis_setex_ok = True,
       get_sql_from_llm = [''all projects'' \<mapsto> ''SELECT 1''], mysql_connect = True,
       cursor_execute = [''SELECT 1'' \<mapsto> []]\<rparr> :: string env)
     ''all projects'' \<lparr>mock_cache = Map.empty, redis_db = Map.empty\<rparr>
   = (Some \<lparr>sql = ''SELECT 1'', data = [], cache_hit = False, count = 0\<rparr>,
      \<lparr>mock_cache = [''all projects'' \<mapsto> ''SELECT 1''], redis_db = Map.empty\<rparr>,
      [MockLookup ''all projects'', LlmCall ''all projects'',
       MockStore ''all projects'' ''SELECT 1'', DbConnected, DbExecute ''SELECT 1'', DbClosed])
   \<and> fst (main_query (\<lambda>v. v)
       (\<lparr>redis_ping = False, redis_get_ok = True, redis_setex_ok = True,
         get_sql_from_llm = [''all projects'' \<mapsto> ''SELECT 1''], mysql_connect = True,
         cursor_execute = [''SELECT 1'' \<mapsto> []]\<rparr> :: string env)
       ''all projects'' \<lparr>mock_cache = Map.empty, redis_db = Map.empty\<rparr>)
     = [EmptyResult]"
proof -
  let ?e = "\<lparr>redis_ping = False, redis_get_ok = True, redis_setex_ok = True,
       get_sql_from_llm = [''all projects'' \<mapsto> ''SELECT 1''], mysql_connect = True,
       cursor_execute = [''SELECT 1'' \<mapsto> []]\<rparr> :: string env"
  let ?t = "[MockLookup ''all projects'', LlmCall ''all projects'',
       MockStore ''all projects'' ''SELECT 1'', DbConnected, DbExecute ''SELECT 1'', DbClosed]"
  have call: "query_with_cache ?e ''all projects'' \<lparr>mock_cache = Map.empty, redis_db = Map.empty\<rparr>
      = (Some \<lparr>sql = ''SELECT 1'', data = [], cache_hit = False, count = 0\<rparr>,
         \<lparr>mock_cache = [''all projects'' \<mapsto> ''SELECT 1''], redis_db = Map.empty\<rparr>, ?t)"
    by (simp add: pipeline_defs)
  have executed: "DbExecute ''SELECT 1'' \<in> set ?t" by simp
  have no_rows: "cursor_execute ?e ''SELECT 1'' = Some []" by simp
  from empty_result_is_not_failure [OF call executed no_rows, where str = "\<lambda>v. v"] call
  show ?thesis by blast
qed

subsection \<open>The resolver\<close>

text \<open>
  C2. When the generator is called and raises, \<open>query_with_cache\<close> returns \<open>None\<close>,
  neither cache is written (no store event, the state is unchanged) and nothing is sent
  to MySQL (no database event, not even a connection). The repeated call starts from
  the same state: its lookup again yields no usable SQL and it calls the generator
  again, with the same outcome.
\<close>

theorem generator_failure_aborts:
  assumes "query_with_cache e prompt s = (r, s', t)"
    and "LlmCall prompt \<in> set t"
    and "get_sql_from_llm e prompt = None"
  shows "r = None
       \<and> s' = s
       \<and> filter store_event t = []
       \<and> filter db_event t = []
       \<and> \<not> truthy (fst (check_cache e (get_redis_client e) prompt s'))
       \<and> query_with_cache e prompt s' = (None, s', t)"
  using assms
  by (auto simp: pipeline_defs Let_def split: if_splits option.splits prod.splits)

theorem generator_failure_aborts_witness:
  "query_with_cache
     (\<lparr>redis_ping = True, redis_get_ok = True, redis_setex_ok = True,
       get_sql_from_llm = Map.empty, mysql_connect = True,
       cursor_execute = [''SELECT 1'' \<mapsto> []]\<rparr> :: string env)
     ''query all projects'' \<lparr>mock_cache = Map.empty, redis_db = Map.empty\<rparr>
   = (None, \<lparr>mock_cache = Map.empty, redis_db = Map.empty\<rparr>,
      [RedisGet ''cache:query all projects'', LlmCall ''query all projects''])
   \<and> filter store_event [RedisGet ''cache:query all projects'', LlmCall ''query all projects''] = []
   \<and> filter db_event [RedisGet ''cache:query all projects'', LlmCall ''query all projects''] = []"
proof -
  let ?e = "\<lparr>redis_ping = True, redis_get_ok = True, redis_setex_ok = True,
       get_sql_from_llm = Map.empty, mysql_connect = True,
       cursor_execute = [''SELECT 1'' \<mapsto> []]\<rparr> :: string env"
  let ?s = "\<lparr>mock_cache = Map.empty, redis_db = Map.empty\<rparr>"
  let ?t = "[RedisGet ''cache:query all projects'', LlmCall ''query all projects'']"
  have call: "query_with_cache ?e ''query all projects'' ?s = (None, ?s, ?t)"
    by (simp add: pipeline_defs)
  have called: "LlmCall ''query all projects'' \<in> set ?t" by simp
  have raises: "get_sql_from_llm ?e ''query all projects'' = None" by simp
  from generator_failure_aborts [OF call called raises] call
  show ?thesis by blast
qed

text \<open>
  C9. When the probe of the Shared backend succeeds, the call does not touch
  \<open>mock_cache\<close>: it is unchanged afterwards, the trace has no lookup in it and no store
  to it, and the call's result and events are the same whatever \<open>mock_cache\<close> holds, so
  an entry left there by an earlier outage is never returned.
\<close>

theorem shared_backend_ignores_mock_cache:
  assumes "get_redis_client e"
    and "query_with_cache e prompt s = (r, s', t)"
  shows "mock_cache s' = mock_cache s
       \<and> filter mock_event t = []
       \<and> query_with_cache e prompt (s\<lparr>mock_cache := m\<rparr>) = (r, s'\<lparr>mock_cache := m\<rparr>, t)"
  using assms
  by (auto simp: pipeline_defs Let_def split: if_splits option.splits prod.splits)

theorem shared_backend_ignores_mock_cache_witness:
  "get_redis_client
     (\<lparr>redis_ping = True, redis_get_ok = True, redis_setex_ok = True,
       get_sql_from_llm = [''all projects'' \<mapsto> ''SELECT 1''], mysql_connect = True,
       cursor_execute = [''SELECT 1'' \<mapsto> []]\<rparr> :: string env)
   \<and> query_with_cache
     (\<lparr>redis_ping = True, redis_get_ok = True, redis_setex_ok = True,
       get_sql_from_llm = [''all projects'' \<mapsto> ''SELECT 1''], mysql_connect = True,
       cursor_execute = [''SELECT 1'' \<mapsto> []]\<rparr> :: string env)
     ''all projects''
     \<lparr>mock_cache = [''all projects'' \<mapsto> ''SELECT 0''], redis_db = Map.empty\<rparr>
   = (Some \<lparr>sql = ''SELECT 1'', data = [], cache_hit = False, count = 0\<rparr>,
      \<lparr>mock_cache = [''all projects'' \<mapsto> ''SELECT 0''],
       redis_db = [''cache:all projects'' \<mapsto> (3600, ''SELECT 1'')]\<rparr>,
      [RedisGet ''cache:all projects'', LlmCall ''all projects'',
       RedisSetex ''cache:all projects'' 3600 ''SELECT 1'',
       DbConnected, DbExecute ''SELECT 1'', DbClosed])"
proof -
  let ?e = "\<lparr>redis_ping = True, redis_get_ok = True, redis_setex_ok = True,
       get_sql_from_llm = [''all projects'' \<mapsto> ''SELECT 1''], mysql_connect = True,
       cursor_execute = [''SELECT 1'' \<mapsto> []]\<rparr> :: string env"
  let ?r = "Some \<lparr>sql = ''SELECT 1'', data = [], cache_hit = False, count = 0\<rparr>
              :: string results option"
  let ?t = "[RedisGet ''cache:all projects'', LlmCall ''all projects'',
       RedisSetex ''cache:all projects'' 3600 ''SELECT 1'',
       DbConnected, DbExecute ''SELECT 1'', DbClosed]"
  have probe: "get_redis_client ?e" by (simp add: get_redis_client_def)
  have call: "query_with_cache ?e ''all projects'' \<lparr>mock_cache = Map.empty, redis_db = Map.empty\<rparr>
      = (?r, \<lparr>mock_cache = Map.empty,
              redis_db = [''cache:all projects'' \<mapsto> (3600, ''SELECT 1'')]\<rparr>, ?t)"
    by (simp add: pipeline_defs)
  from shared_backend_ignores_mock_cache
         [OF probe call, where m = "[''all projects'' \<mapsto> ''SELECT 0'']"] probe
  show ?thesis by simp
qed

subsection \<open>The formatter\<close>

text \<open>The dict built by the loop holds the specification's width for every column.\<close>

lemma col_widths_lookup:
  "map_of (col_widths str rows cols cw) c =
     (if c \<in> set cols then Some (display_width str rows c) else map_of cw c)"
proof (induction cols arbitrary: cw)
  case Nil
  show ?case by simp
next
  case (Cons col cols)
  show ?case
    by (simp add: Cons.IH Let_def update_conv' display_width_def)
qed

lemma width_col_widths:
  "c \<in> set cols \<Longrightarrow> width (col_widths str rows cols cw) c = display_width str rows c"
  by (simp add: width_def col_widths_lookup)

lemma cell_fits:
  assumes "row \<in> set rows"
  shows "length (cell str row c) \<le> display_width str rows c - 2"
proof -
  have "length (cell str row c) \<in> set (map (\<lambda>row. length (cell str row c)) rows)"
    using assms by simp
  then have "length (cell str row c) \<le> Max (set (map (\<lambda>row. length (cell str row c)) rows))"
    by (intro Max_ge) simp_all
  then show ?thesis by (simp add: display_width_def)
qed

lemma fold_append_concat:
  "fold (\<lambda>x acc. acc @ f x) xs init = init @ concat (map f xs)"
  by (induction xs arbitrary: init) simp_all

lemma data_line_concat:
  "data_line str cw columns row =
     ''|'' @ concat (map (\<lambda>col. '' '' @ ljust (width cw col - 2)
                                   (take (width cw col - 2) (cell str row col)) @ '' |'') columns)"
  unfolding data_line_def Let_def by (rule fold_append_concat)

lemma print_results_nonempty:
  assumes "data r = row0 # rest"
  shows "print_results str (Some r) =
           [Text (replicate (sum_list (map snd (col_widths str (data r) (map fst row0) []))
                              + length row0 + 1) CHR ''=''),
            Text (header (col_widths str (data r) (map fst row0) []) (map fst row0)),
            Text (replicate (sum_list (map snd (col_widths str (data r) (map fst row0) []))
                              + length row0 + 1) CHR ''='')]
           @ map (\<lambda>row. Text (data_line str (col_widths str (data r) (map fst row0) [])
                                 (map fst row0) row)) (data r)
           @ [Text (replicate (sum_list (map snd (col_widths str (data r) (map fst row0) []))
                              + length row0 + 1) CHR ''=''),
              Summary (count r) (cache_hit r)]"
  using assms by (simp add: print_results_def Let_def)

text \<open>
  C7. For a non-empty result, the width that the formatter stores for a column is the
  larger of the length of the column name and the longest stringified value of that
  column, plus 2; each data line is the row's values, each cut to its first
  \<open>width - 2\<close> characters (nothing is put in place of what is cut) and padded on the
  right to \<open>width - 2\<close>; there is one data line per row, after the three lines of the
  header, and the last line is the summary with the count. For the rows
  \<open>{id: 1, name: Alpha}\<close>, \<open>{id: 2, name: B}\<close> the output is exactly: a rule, the header
  with \<open>id\<close> and \<open>name\<close>, a rule, two data lines, a rule and the summary for 2 records.
\<close>

theorem print_results_layout:
  assumes "data r = row0 # rest"
  shows "(\<forall>col \<in> set (map fst row0).
            width (col_widths str (data r) (map fst row0) []) col
              = max (length col)
                    (Max (set (map (\<lambda>row. length (cell str row col)) (data r)))) + 2)
       \<and> (\<forall>row \<in> set (data r).
            data_line str (col_widths str (data r) (map fst row0) []) (map fst row0) row
              = ''|'' @ concat (map (\<lambda>col. '' '' @ ljust (display_width str (data r) col - 2)
                      (take (display_width str (data r) col - 2) (cell str row col)) @ '' |'')
                    (map fst row0)))
       \<and> length (print_results str (Some r)) = length (data r) + 5
       \<and> (\<forall>i < length (data r).
            print_results str (Some r) ! (i + 3)
              = Text (data_line str (col_widths str (data r) (map fst row0) []) (map fst row0)
                        (data r ! i)))
       \<and> last (print_results str (Some r)) = Summary (count r) (cache_hit r)
       \<and> print_results (\<lambda>v. v)
            (Some \<lparr>sql = ''SELECT id, name FROM t'',
                   data = [[(''id'', ''1''), (''name'', ''Alpha'')],
                           [(''id'', ''2''), (''name'', ''B'')]],
                   cache_hit = False, count = 2\<rparr>)
          = [Text ''=============='',
             Text ''| id | name  |'',
             Text ''=============='',
             Text ''| 1  | Alpha |'',
             Text ''| 2  | B     |'',
             Text ''=============='',
             Summary 2 False]"
proof (intro conjI ballI allI impI)
  fix col assume "col \<in> set (map fst row0)"
  then show "width (col_widths str (data r) (map fst row0) []) col
      = max (length col) (Max (set (map (\<lambda>row. length (cell str row col)) (data r)))) + 2"
    by (simp only: width_col_widths display_width_def)
next
  fix row assume "row \<in> set (data r)"
  have "map (\<lambda>col. '' '' @ ljust (width (col_widths str (data r) (map fst row0) []) col - 2)
                (take (width (col_widths str (data r) (map fst row0) []) col - 2)
                   (cell str row col)) @ '' |'')
            (map fst row0)
      = map (\<lambda>col. '' '' @ ljust (display_width str (data r) col - 2)
                (take (display_width str (data r) col - 2) (cell str row col)) @ '' |'')
            (map fst row0)"
    by (rule map_cong) (simp_all only: width_col_widths)
  then show "data_line str (col_widths str (data r) (map fst row0) []) (map fst row0) row
      = ''|'' @ concat (map (\<lambda>col. '' '' @ ljust (display_width str (data r) col - 2)
              (take (display_width str (data r) col - 2) (cell str row col)) @ '' |'')
            (map fst row0))"
    by (simp only: data_line_concat)
next
  show "length (print_results str (Some r)) = length (data r) + 5"
    by (simp add: print_results_nonempty [OF assms])
next
  fix i assume "i < length (data r)"
  then show "print_results str (Some r) ! (i + 3)
      = Text (data_line str (col_widths str (data r) (map fst row0) []) (map fst row0)
                (data r ! i))"
    by (simp add: print_results_nonempty [OF assms] nth_append)
next
  show "last (print_results str (Some r)) = Summary (count r) (cache_hit r)"
    by (simp add: print_results_nonempty [OF assms])
next
  show "print_results (\<lambda>v. v)
            (Some \<lparr>sql = ''SELECT id, name FROM t'',
                   data = [[(''id'', ''1''), (''name'', ''Alpha'')],
                           [(''id'', ''2''), (''name'', ''B'')]],
                   cache_hit = False, count = 2\<rparr>)
          = [Text ''=============='',
             Text ''| id | name  |'',
             Text ''=============='',
             Text ''| 1  | Alpha |'',
             Text ''| 2  | B     |'',
             Text ''=============='',
             Summary 2 False]"
    by (simp add: print_results_def header_def data_line_def width_def center_def ljust_def
          cell_def Let_def)
qed

theorem print_results_layout_witness:
  "width (col_widths (\<lambda>v. v)
            [[(''id'', ''1''), (''name'', ''Alpha'')], [(''id'', ''2''), (''name'', ''B'')]]
            [''id'', ''name''] []) ''name'' = 7
   \<and> data_line (\<lambda>v. v)
        (col_widths (\<lambda>v. v)
            [[(''id'', ''1''), (''name'', ''Alpha'')], [(''id'', ''2''), (''name'', ''B'')]]
            [''id'', ''name''] [])
        [''id'', ''name''] [(''id'', ''2''), (''name'', ''B'')]
     = ''| 2  | B     |''"
proof -
  let ?rows = "[[(''id'', ''1''), (''name'', ''Alpha'')], [(''id'', ''2''), (''name'', ''B'')]]"
  let ?r = "\<lparr>sql = ''SELECT id, name FROM t'', data = ?rows, cache_hit = False, count = 2\<rparr>"
  have nonempty: "data ?r = [(''id'', ''1''), (''name'', ''Alpha'')] # [[(''id'', ''2''), (''name'', ''B'')]]"
    by simp
  have w: "display_width (\<lambda>v. v) ?rows ''name'' = 7" "display_width (\<lambda>v. v) ?rows ''id'' = 4"
    by (simp_all add: display_width_def cell_def)
  from print_results_layout [OF nonempty, where str = "\<lambda>v. v"]
  have "width (col_widths (\<lambda>v. v) ?rows [''id'', ''name''] []) ''name''
          = max (length ''name'') (Max (set (map (\<lambda>row. length (cell (\<lambda>v. v) row ''name'')) ?rows))) + 2"
    and "data_line (\<lambda>v. v) (col_widths (\<lambda>v. v) ?rows [''id'', ''name''] []) [''id'', ''name'']
           [(''id'', ''2''), (''name'', ''B'')]
          = ''|'' @ concat (map (\<lambda>col. '' '' @ ljust (display_width (\<lambda>v. v) ?rows col - 2)
                      (take (display_width (\<lambda>v. v) ?rows col - 2)
                         (cell (\<lambda>v. v) [(''id'', ''2''), (''name'', ''B'')] col)) @ '' |'')
                    [''id'', ''name''])"
    by simp_all
  then show ?thesis
    by (simp add: w cell_def ljust_def eval_nat_numeral)
qed

text \<open>
  C10. For a non-empty result the slice of line 170 removes nothing: for every row
  and every column, the first \<open>width - 2\<close> characters of the stringified value are the
  whole value, so each data line shows every value in full, padded to the column.
\<close>

theorem slice_keeps_every_value:
  assumes "data r = row0 # rest"
    and "row \<in> set (data r)"
    and "col \<in> set (map fst row0)"
  shows "take (width (col_widths str (data r) (map fst row0) []) col - 2) (cell str row col)
           = cell str row col
       \<and> data_line str (col_widths str (data r) (map fst row0) []) (map fst row0) row
           = ''|'' @ concat (map (\<lambda>c. '' '' @ ljust (display_width str (data r) c - 2)
                                          (cell str row c) @ '' |'')
                 (map fst row0))"
proof
  show "take (width (col_widths str (data r) (map fst row0) []) col - 2) (cell str row col)
           = cell str row col"
    using assms(2,3) cell_fits [of row "data r" str col]
    by (simp only: width_col_widths take_all)
next
  have "map (\<lambda>c. '' '' @ ljust (width (col_widths str (data r) (map fst row0) []) c - 2)
                (take (width (col_widths str (data r) (map fst row0) []) c - 2)
                   (cell str row c)) @ '' |'')
            (map fst row0)
      = map (\<lambda>c. '' '' @ ljust (display_width str (data r) c - 2) (cell str row c) @ '' |'')
            (map fst row0)"
  proof (rule map_cong)
    fix c assume c: "c \<in> set (map fst row0)"
    have "take (display_width str (data r) c - 2) (cell str row c) = cell str row c"
      using assms(2) cell_fits [of row "data r" str c] by simp
    then show "'' '' @ ljust (width (col_widths str (data r) (map fst row0) []) c - 2)
                (take (width (col_widths str (data r) (map fst row0) []) c - 2)
                   (cell str row c)) @ '' |''
        = '' '' @ ljust (display_width str (data r) c - 2) (cell str row c) @ '' |''"
      using c by (simp only: width_col_widths)
  qed simp
  then show "data_line str (col_widths str (data r) (map fst row0) []) (map fst row0) row
           = ''|'' @ concat (map (\<lambda>c. '' '' @ ljust (display_width str (data r) c - 2)
                                          (cell str row c) @ '' |'')
                 (map fst row0))"
    by (simp only: data_line_concat)
qed

theorem slice_keeps_every_value_witness:
  "take (width (col_widths (\<lambda>v. v)
                  [[(''id'', ''1''), (''name'', ''Alpha'')], [(''id'', ''2''), (''name'', ''B'')]]
                  [''id'', ''name''] []) ''name'' - 2)
        (cell (\<lambda>v. v) [(''id'', ''1''), (''name'', ''Alpha'')] ''name'')
   = ''Alpha''"
proof -
  let ?rows = "[[(''id'', ''1''), (''name'', ''Alpha'')], [(''id'', ''2''), (''name'', ''B'')]]"
  let ?r = "\<lparr>sql = ''SELECT id, name FROM t'', data = ?rows, cache_hit = False, count = 2\<rparr>"
  have nonempty: "data ?r = [(''id'', ''1''), (''name'', ''Alpha'')] # [[(''id'', ''2''), (''name'', ''B'')]]"
    by simp
  have row: "[(''id'', ''1''), (''name'', ''Alpha'')] \<in> set (data ?r)" by simp
  have col: "''name'' \<in> set (map fst [(''id'', ''1''), (''name'', ''Alpha'')])" by simp
  from slice_keeps_every_value [OF nonempty row col, where str = "\<lambda>v. v"]
  have "take (width (col_widths (\<lambda>v. v) ?rows [''id'', ''name''] []) ''name'' - 2)
             (cell (\<lambda>v. v) [(''id'', ''1''), (''name'', ''Alpha'')] ''name'')
          = cell (\<lambda>v. v) [(''id'', ''1''), (''name'', ''Alpha'')] ''name''"
    by simp
  then show ?thesis by (simp add: cell_def)
qed

subsection \<open>Cache hits\<close>

text \<open>
  C1, as stated, fails in two ways. First input: the Local cache holds
  \<open>SELECT * FROM t\<close> for the prompt and the statement fails in MySQL; the call
  returns \<open>None\<close> (line 124), not the stored SQL. Second input: the Local cache holds
  the empty string for the prompt; line 93 sets \<open>cache_hit\<close>, but the empty string is
  false at line 97 and the generator is called.
\<close>

theorem cached_sql_lost_or_regenerated:
  "fst (query_with_cache
          (\<lparr>redis_ping = False, redis_get_ok = True, redis_setex_ok = True,
            get_sql_from_llm = Map.empty, mysql_connect = True,
            cursor_execute = Map.empty\<rparr> :: string env)
          ''all projects''
          \<lparr>mock_cache = [''all projects'' \<mapsto> ''SELECT * FROM t''], redis_db = Map.empty\<rparr>)
     = None
   \<and> snd (snd (query_with_cache
          (\<lparr>redis_ping = False, redis_get_ok = True, redis_setex_ok = True,
            get_sql_from_llm = [''all projects'' \<mapsto> ''SELECT 1''], mysql_connect = True,
            cursor_execute = [''SELECT 1'' \<mapsto> []]\<rparr> :: string env)
          ''all projects''
          \<lparr>mock_cache = [''all projects'' \<mapsto> []], redis_db = Map.empty\<rparr>))
     = [MockLookup ''all projects'', LlmCall ''all projects'',
        MockStore ''all projects'' ''SELECT 1'', DbConnected, DbExecute ''SELECT 1'', DbClosed]"
  by (simp add: pipeline_defs)

text \<open>
  C1, amended. When the lookup returns a stored SQL string that is not empty (from
  Redis when the probe succeeds, from \<open>mock_cache\<close> otherwise), the call never invokes
  the generator and writes no cache; it executes exactly that string, and returns it
  with \<open>cache_hit = True\<close> when the execution succeeds and \<open>None\<close> when it fails.
\<close>

theorem cache_hit_skips_generator:
  assumes "q \<noteq> []"
    and "(get_redis_client e \<and> redis_get_ok e \<and> redis_db s (cache_key prompt) = Some (ttl, q))
         \<or> (\<not> get_redis_client e \<and> mock_cache s prompt = Some q)"
    and "query_with_cache e prompt s = (r, s', t)"
  shows "(\<forall>p. LlmCall p \<notin> set t)
       \<and> filter store_event t = []
       \<and> s' = s
       \<and> r = map_option
               (\<lambda>rows. \<lparr>sql = q, data = rows, cache_hit = True, count = length rows\<rparr>)
               (fst (execute_sql e q))"
  using assms
  by (auto simp: pipeline_defs Let_def split: if_splits option.splits prod.splits)

theorem cache_hit_skips_generator_witness:
  "query_with_cache
     (\<lparr>redis_ping = True, redis_get_ok = True, redis_setex_ok = True,
       get_sql_from_llm = [''all projects'' \<mapsto> ''SELECT 2''], mysql_connect = True,
       cursor_execute = [''SELECT 1'' \<mapsto> [[(''1'', ''1'')]]]\<rparr> :: string env)
     ''all projects''
     \<lparr>mock_cache = Map.empty, redis_db = [''cache:all projects'' \<mapsto> (3600, ''SELECT 1'')]\<rparr>
   = (Some \<lparr>sql = ''SELECT 1'', data = [[(''1'', ''1'')]], cache_hit = True, count = 1\<rparr>,
      \<lparr>mock_cache = Map.empty, redis_db = [''cache:all projects'' \<mapsto> (3600, ''SELECT 1'')]\<rparr>,
      [RedisGet ''cache:all projects'', DbConnected, DbExecute ''SELECT 1'', DbClosed])"
proof -
  let ?e = "\<lparr>redis_ping = True, redis_get_ok = True, redis_setex_ok = True,
       get_sql_from_llm = [''all projects'' \<mapsto> ''SELECT 2''], mysql_connect = True,
       cursor_execute = [''SELECT 1'' \<mapsto> [[(''1'', ''1'')]]]\<rparr> :: string env"
  let ?s = "\<lparr>mock_cache = Map.empty,
             redis_db = [''cache:all projects'' \<mapsto> (3600::nat, ''SELECT 1'')]\<rparr>"
  obtain r s' t where call: "query_with_cache ?e ''all projects'' ?s = (r, s', t)"
    by (cases "query_with_cache ?e ''all projects'' ?s")
  have nonempty: "''SELECT 1'' \<noteq> []" by simp
  have stored: "(get_redis_client ?e \<and> redis_get_ok ?e
                   \<and> redis_db ?s (cache_key ''all projects'') = Some (3600, ''SELECT 1''))
                \<or> (\<not> get_redis_client ?e \<and> mock_cache ?s ''all projects'' = Some ''SELECT 1'')"
    by (simp add: get_redis_client_def cache_key_def)
  have trace: "t = [RedisGet ''cache:all projects'', DbConnected, DbExecute ''SELECT 1'', DbClosed]"
    using call by (simp add: pipeline_defs)
  from cache_hit_skips_generator [OF nonempty stored call]
  have "s' = ?s"
    and "r = map_option
               (\<lambda>rows. \<lparr>sql = ''SELECT 1'', data = rows, cache_hit = True, count = length rows\<rparr>)
               (fst (execute_sql ?e ''SELECT 1''))"
    by simp_all
  then show ?thesis
    using call trace by (simp add: execute_sql_def get_db_connection_def)
qed

text \<open>
  C5, as stated, fails. First input: Redis answers the ping and \<open>get\<close> but refuses
  \<open>setex\<close> on both calls (lines 111 and 112 catch it); nothing is stored, and the
  second call misses again. Second input: the generator returns the empty string,
  Redis stores it, and \<open>get\<close> returns a value that is false at line 86. In both the
  second call has \<open>cache_hit = False\<close>.
\<close>

theorem second_call_can_miss:
  "map_option cache_hit (fst (query_with_cache
          (\<lparr>redis_ping = True, redis_get_ok = True, redis_setex_ok = False,
            get_sql_from_llm = [''all projects'' \<mapsto> ''SELECT 1''], mysql_connect = True,
            cursor_execute = [''SELECT 1'' \<mapsto> []]\<rparr> :: string env)
          ''all projects''
          (fst (snd (query_with_cache
             (\<lparr>redis_ping = True, redis_get_ok = True, redis_setex_ok = False,
               get_sql_from_llm = [''all projects'' \<mapsto> ''SELECT 1''], mysql_connect = True,
               cursor_execute = [''SELECT 1'' \<mapsto> []]\<rparr> :: string env)
             ''all projects''
             \<lparr>mock_cache = Map.empty, redis_db = Map.empty\<rparr>)))))
     = Some False
   \<and> map_option cache_hit (fst (query_with_cache
          (\<lparr>redis_ping = True, redis_get_ok = True, redis_setex_ok = True,
            get_sql_from_llm = [''all projects'' \<mapsto> []], mysql_connect = True,
            cursor_execute = [[] \<mapsto> []]\<rparr> :: string env)
          ''all projects''
          (fst (snd (query_with_cache
             (\<lparr>redis_ping = True, redis_get_ok = True, redis_setex_ok = True,
               get_sql_from_llm = [''all projects'' \<mapsto> []], mysql_connect = True,
               cursor_execute = [[] \<mapsto> []]\<rparr> :: string env)
             ''all projects''
             \<lparr>mock_cache = Map.empty, redis_db = Map.empty\<rparr>)))))
     = Some False"
  by (simp add: pipeline_defs)

text \<open>
  C5, amended. Take a prompt with no entry in the backend in use, and two calls in
  sequence during which the services answer alike: the generator returns \<open>q\<close>, MySQL
  executes \<open>q\<close>, and, when the backend is Redis, \<open>get\<close> and \<open>setex\<close> do not raise and
  \<open>q\<close> is not empty. Then the first call returns \<open>q\<close> with \<open>cache_hit = False\<close> and the
  second returns the same \<open>q\<close> with \<open>cache_hit = True\<close>.
\<close>

theorem miss_then_hit:
  assumes "get_sql_from_llm e prompt = Some q"
    and "cursor_execute e q = Some rows"
    and "mysql_connect e"
    and "if get_redis_client e
         then redis_get_ok e \<and> redis_setex_ok e \<and> redis_db s (cache_key prompt) = None \<and> q \<noteq> []
         else mock_cache s prompt = None"
    and "query_with_cache e prompt s = (r1, s1, t1)"
    and "query_with_cache e prompt s1 = (r2, s2, t2)"
  shows "r1 = Some \<lparr>sql = q, data = rows, cache_hit = False, count = length rows\<rparr>
       \<and> r2 = Some \<lparr>sql = q, data = rows, cache_hit = True, count = length rows\<rparr>
       \<and> LlmCall prompt \<in> set t1
       \<and> (q \<noteq> [] \<longrightarrow> (\<forall>p. LlmCall p \<notin> set t2))
       \<and> s2 = s1"
  using assms
  by (auto simp: pipeline_defs Let_def split: if_splits option.splits prod.splits)

theorem miss_then_hit_witness:
  "query_with_cache
     (\<lparr>redis_ping = True, redis_get_ok = True, redis_setex_ok = True,
       get_sql_from_llm = [''all projects'' \<mapsto> ''SELECT 1''], mysql_connect = True,
       cursor_execute = [''SELECT 1'' \<mapsto> []]\<rparr> :: string env)
     ''all projects''
     \<lparr>mock_cache = Map.empty, redis_db = [''cache:all projects'' \<mapsto> (3600, ''SELECT 1'')]\<rparr>
   = (Some \<lparr>sql = ''SELECT 1'', data = [], cache_hit = True, count = 0\<rparr>,
      \<lparr>mock_cache = Map.empty, redis_db = [''cache:all projects'' \<mapsto> (3600, ''SELECT 1'')]\<rparr>,
      [RedisGet ''cache:all projects'', DbConnected, DbExecute ''SELECT 1'', DbClosed])"
proof -
  let ?e = "\<lparr>redis_ping = True, redis_get_ok = True, redis_setex_ok = True,
       get_sql_from_llm = [''all projects'' \<mapsto> ''SELECT 1''], mysql_connect = True,
       cursor_execute = [''SELECT 1'' \<mapsto> []]\<rparr> :: string env"
  let ?s = "\<lparr>mock_cache = Map.empty, redis_db = Map.empty\<rparr>"
  let ?s1 = "\<lparr>mock_cache = Map.empty,
              redis_db = [''cache:all projects'' \<mapsto> (3600::nat, ''SELECT 1'')]\<rparr>"
  let ?t1 = "[RedisGet ''cache:all projects'', LlmCall ''all projects'',
              RedisSetex ''cache:all projects'' 3600 ''SELECT 1'',
              DbConnected, DbExecute ''SELECT 1'', DbClosed]"
  let ?t2 = "[RedisGet ''cache:all projects'', DbConnected, DbExecute ''SELECT 1'', DbClosed]"
  obtain r2 s2 where second: "query_with_cache ?e ''all projects'' ?s1 = (r2, s2, ?t2)"
    by (simp add: pipeline_defs)
  have gen: "get_sql_from_llm ?e ''all projects'' = Some ''SELECT 1''" by simp
  have exec: "cursor_execute ?e ''SELECT 1'' = Some []" by simp
  have conn: "mysql_connect ?e" by simp
  have fresh: "if get_redis_client ?e
               then redis_get_ok ?e \<and> redis_setex_ok ?e
                    \<and> redis_db ?s (cache_key ''all projects'') = None \<and> ''SELECT 1'' \<noteq> []
               else mock_cache ?s ''all projects'' = None"
    by (simp add: get_redis_client_def)
  have first: "query_with_cache ?e ''all projects'' ?s
      = (Some \<lparr>sql = ''SELECT 1'', data = [], cache_hit = False, count = 0\<rparr>, ?s1, ?t1)"
    by (simp add: pipeline_defs)
  from miss_then_hit [OF gen exec conn fresh first second]
  have "r2 = Some \<lparr>sql = ''SELECT 1'', data = [], cache_hit = True, count = 0\<rparr>" and "s2 = ?s1"
    by simp_all
  then show ?thesis using second by simp
qed

subsection \<open>Cache keys\<close>

text \<open>
  C8, as stated, fails for the Local backend: after a miss on the prompt
  \<open>all projects\<close> with Redis unreachable, \<open>mock_cache\<close> has no entry under the
  prefixed key \<open>cache:all projects\<close>; the entry is under the prompt itself (lines 91,
  92 and 114 index \<open>mock_cache\<close> with \<open>prompt\<close>, not with \<open>cache_key\<close>).
\<close>

theorem local_key_has_no_prefix:
  "mock_cache (fst (snd (query_with_cache
          (\<lparr>redis_ping = False, redis_get_ok = True, redis_setex_ok = True,
            get_sql_from_llm = [''all projects'' \<mapsto> ''SELECT 1''], mysql_connect = True,
            cursor_execute = [''SELECT 1'' \<mapsto> []]\<rparr> :: string env)
          ''all projects''
          \<lparr>mock_cache = Map.empty, redis_db = Map.empty\<rparr>))) ''cache:all projects'' = None
   \<and> mock_cache (fst (snd (query_with_cache
          (\<lparr>redis_ping = False, redis_get_ok = True, redis_setex_ok = True,
            get_sql_from_llm = [''all projects'' \<mapsto> ''SELECT 1''], mysql_connect = True,
            cursor_execute = [''SELECT 1'' \<mapsto> []]\<rparr> :: string env)
          ''all projects''
          \<lparr>mock_cache = Map.empty, redis_db = Map.empty\<rparr>))) ''all projects''
     = Some ''SELECT 1''"
  by (simp add: pipeline_defs)

text \<open>
  C8, amended. The key of the Shared backend is the fixed prefix \<open>cache:\<close> followed by
  the prompt verbatim; the key of the Local backend is the prompt verbatim, with no
  prefix. Every cache operation of a call names exactly that key, entries under any
  other key are left as they were, and the prefixed keys of two prompts are equal only
  if the prompts are: prompts that differ in any character are cached apart.
\<close>

theorem cache_keys_verbatim:
  assumes "query_with_cache e prompt s = (r, s', t)"
  shows "set (concat (map event_key t))
           = {if get_redis_client e then ''cache:'' @ prompt else prompt}
       \<and> (\<forall>k. k \<noteq> ''cache:'' @ prompt \<longrightarrow> redis_db s' k = redis_db s k)
       \<and> (\<forall>k. k \<noteq> prompt \<longrightarrow> mock_cache s' k = mock_cache s k)
       \<and> ((''cache:'' @ prompt = ''cache:'' @ prompt') = (prompt = prompt'))"
  using assms
  by (auto simp: pipeline_defs Let_def split: if_splits option.splits prod.splits)

theorem cache_keys_verbatim_witness:
  "set (concat (map event_key
          [RedisGet ''cache:all projects'', LlmCall ''all projects'',
           RedisSetex ''cache:all projects'' 3600 ''SELECT 1'',
           DbConnected, DbExecute ''SELECT 1'', DbClosed]))
     = {''cache:all projects''}
   \<and> redis_db \<lparr>mock_cache = Map.empty,
                redis_db = [''cache:all projects'' \<mapsto> (3600, ''SELECT 1'')]\<rparr>
        ''cache:all projects ''
     = None"
proof -
  let ?e = "\<lparr>redis_ping = True, redis_get_ok = True, redis_setex_ok = True,
       get_sql_from_llm = [''all projects'' \<mapsto> ''SELECT 1''], mysql_connect = True,
       cursor_execute = [''SELECT 1'' \<mapsto> []]\<rparr> :: string env"
  let ?s = "\<lparr>mock_cache = Map.empty, redis_db = Map.empty\<rparr>"
  let ?s' = "\<lparr>mock_cache = Map.empty,
              redis_db = [''cache:all projects'' \<mapsto> (3600::nat, ''SELECT 1'')]\<rparr>"
  let ?t = "[RedisGet ''cache:all projects'', LlmCall ''all projects'',
           RedisSetex ''cache:all projects'' 3600 ''SELECT 1'',
           DbConnected, DbExecute ''SELECT 1'', DbClosed]"
  have call: "query_with_cache ?e ''all projects'' ?s
      = (Some \<lparr>sql = ''SELECT 1'', data = [], cache_hit = False, count = 0\<rparr>, ?s', ?t)"
    by (simp add: pipeline_defs)
  have other: "''cache:all projects '' \<noteq> ''cache:'' @ ''all projects''" by simp
  note all = cache_keys_verbatim [OF call]
  have keys: "set (concat (map event_key ?t))
                = {if get_redis_client ?e then ''cache:'' @ ''all projects'' else ''all projects''}"
    by (rule conjunct1 [OF all])
  have kept: "\<forall>k. k \<noteq> ''cache:'' @ ''all projects'' \<longrightarrow> redis_db ?s' k = redis_db ?s k"
    by (rule conjunct1 [OF conjunct2 [OF all]])
  have "redis_db ?s' ''cache:all projects '' = redis_db ?s ''cache:all projects ''"
    by (rule mp [OF spec [OF kept] other])
  then have 2: "redis_db ?s' ''cache:all projects '' = None"
    by (simp only: state.simps)
  have 1: "set (concat (map event_key ?t)) = {''cache:all projects''}"
    using keys by (simp only: get_redis_client_def env.simps if_True append.simps)
  from 1 2 show ?thesis by (rule conjI)
qed

subsection \<open>Choice of the backend\<close>

lemma query_backend:
  assumes "query_with_cache e prompt s = (r, s', t)"
  shows "if get_redis_client e
         then filter mock_event t = [] \<and> mock_cache s' = mock_cache s
         else filter redis_event t = [] \<and> redis_db s' = redis_db s"
  using assms
  by (auto simp: pipeline_defs Let_def split: if_splits option.splits prod.splits)

lemma session_local:
  assumes "list_all (\<lambda>c. \<not> get_redis_client (fst c)) calls"
  shows "filter redis_event (concat (map snd (fst (session calls s)))) = []
       \<and> redis_db (snd (session calls s)) = redis_db s"
  using assms
proof (induction calls arbitrary: s)
  case Nil
  show ?case by simp
next
  case (Cons c calls)
  obtain e prompt where c: "c = (e, prompt)" by (cases c)
  obtain r s' t where q: "query_with_cache e prompt s = (r, s', t)"
    by (cases "query_with_cache e prompt s")
  obtain rs s'' where ss: "session calls s' = (rs, s'')" by (cases "session calls s'")
  from Cons.prems c have down: "\<not> get_redis_client e"
    and rest: "list_all (\<lambda>c. \<not> get_redis_client (fst c)) calls"
    by simp_all
  from query_backend [OF q] down
  have 1: "filter redis_event t = []" "redis_db s' = redis_db s" by simp_all
  from Cons.IH [OF rest, of s'] ss
  have 2: "filter redis_event (concat (map snd rs)) = []" "redis_db s'' = redis_db s'"
    by simp_all
  show ?case using c q ss 1 2 by simp
qed

text \<open>
  C3, as stated, fails. A process finds Redis unreachable at startup (\<open>main\<close> prints
  the fallback message) and during its first query, which goes to \<open>mock_cache\<close>. Redis
  is reachable during the second query of the same prompt: the probe of line 77
  succeeds, and that query reads and writes Redis, and misses the entry the first one
  left in \<open>mock_cache\<close>.
\<close>

theorem backend_switches_after_startup:
  "main (\<lparr>redis_ping = False, redis_get_ok = True, redis_setex_ok = True,
          get_sql_from_llm = [''all projects'' \<mapsto> ''SELECT 1''], mysql_connect = True,
          cursor_execute = [''SELECT 1'' \<mapsto> []]\<rparr> :: string env)
        [(\<lparr>redis_ping = False, redis_get_ok = True, redis_setex_ok = True,
          get_sql_from_llm = [''all projects'' \<mapsto> ''SELECT 1''], mysql_connect = True,
          cursor_execute = [''SELECT 1'' \<mapsto> []]\<rparr>, ''all projects''),
         (\<lparr>redis_ping = True, redis_get_ok = True, redis_setex_ok = True,
          get_sql_from_llm = [''all projects'' \<mapsto> ''SELECT 1''], mysql_connect = True,
          cursor_execute = [''SELECT 1'' \<mapsto> []]\<rparr>, ''all projects'')]
        Map.empty
   = ([MySqlOk, RedisFallback],
      [(Some \<lparr>sql = ''SELECT 1'', data = [], cache_hit = False, count = 0\<rparr>,
        [MockLookup ''all projects'', LlmCall ''all projects'',
         MockStore ''all projects'' ''SELECT 1'', DbConnected, DbExecute ''SELECT 1'', DbClosed]),
       (Some \<lparr>sql = ''SELECT 1'', data = [], cache_hit = False, count = 0\<rparr>,
        [RedisGet ''cache:all projects'', LlmCall ''all projects'',
         RedisSetex ''cache:all projects'' 3600 ''SELECT 1'', DbConnected,
         DbExecute ''SELECT 1'', DbClosed])],
      \<lparr>mock_cache = [''all projects'' \<mapsto> ''SELECT 1''],
       redis_db = [''cache:all projects'' \<mapsto> (3600, ''SELECT 1'')]\<rparr>)"
  by (simp add: main_def pipeline_defs)

text \<open>
  C3, amended. The backend is chosen by a fresh probe at the start of every call of
  \<open>query_with_cache\<close> and is the same for the lookup and the store of that call: with a
  successful probe the call does not touch \<open>mock_cache\<close>, with a failed one it does not
  touch Redis. So if the probe fails during every query of a process, every
  resolution of that process uses the Local fallback. Between two calls the backend
  follows the probe.
\<close>

theorem backend_chosen_per_call:
  "(query_with_cache e prompt s = (r, s', t) \<longrightarrow>
      (if get_redis_client e
       then filter mock_event t = [] \<and> mock_cache s' = mock_cache s
       else filter redis_event t = [] \<and> redis_db s' = redis_db s))
   \<and> (list_all (\<lambda>c. \<not> get_redis_client (fst c)) calls \<longrightarrow>
        filter redis_event (concat (map snd (fst (snd (main e0 calls rdb))))) = []
        \<and> redis_db (snd (snd (main e0 calls rdb))) = rdb)"
proof (intro conjI impI)
  assume "query_with_cache e prompt s = (r, s', t)"
  then show "if get_redis_client e
       then filter mock_event t = [] \<and> mock_cache s' = mock_cache s
       else filter redis_event t = [] \<and> redis_db s' = redis_db s"
    by (rule query_backend)
next
  assume a: "list_all (\<lambda>c. \<not> get_redis_client (fst c)) calls"
  show "filter redis_event (concat (map snd (fst (snd (main e0 calls rdb))))) = []"
    using session_local [OF a, of "\<lparr>mock_cache = Map.empty, redis_db = rdb\<rparr>"]
    by (simp add: main_def get_db_connection_def Let_def split: prod.splits)
  show "redis_db (snd (snd (main e0 calls rdb))) = rdb"
    using session_local [OF a, of "\<lparr>mock_cache = Map.empty, redis_db = rdb\<rparr>"]
    by (simp add: main_def get_db_connection_def Let_def split: prod.splits)
qed

theorem backend_chosen_per_call_witness:
  "filter redis_event
     [MockLookup ''all projects'', LlmCall ''all projects'',
      MockStore ''all projects'' ''SELECT 1'', DbConnected, DbExecute ''SELECT 1'', DbClosed] = []
   \<and> filter redis_event (concat (map snd (fst (snd
        (main (\<lparr>redis_ping = False, redis_get_ok = True, redis_setex_ok = True,
                get_sql_from_llm = [''all projects'' \<mapsto> ''SELECT 1''], mysql_connect = True,
                cursor_execute = [''SELECT 1'' \<mapsto> []]\<rparr> :: string env)
              [(\<lparr>redis_ping = False, redis_get_ok = True, redis_setex_ok = True,
                get_sql_from_llm = [''all projects'' \<mapsto> ''SELECT 1''], mysql_connect = True,
                cursor_execute = [''SELECT 1'' \<mapsto> []]\<rparr>, ''all projects''),
               (\<lparr>redis_ping = False, redis_get_ok = True, redis_setex_ok = True,
                get_sql_from_llm = [''all projects'' \<mapsto> ''SELECT 1''], mysql_connect = True,
                cursor_execute = [''SELECT 1'' \<mapsto> []]\<rparr>, ''all projects'')]
              Map.empty))))) = []"
proof -
  let ?e = "\<lparr>redis_ping = False, redis_get_ok = True, redis_setex_ok = True,
       get_sql_from_llm = [''all projects'' \<mapsto> ''SELECT 1''], mysql_connect = True,
       cursor_execute = [''SELECT 1'' \<mapsto> []]\<rparr> :: string env"
  let ?s = "\<lparr>mock_cache = Map.empty, redis_db = Map.empty\<rparr>"
  let ?t = "[MockLookup ''all projects'', LlmCall ''all projects'',
      MockStore ''all projects'' ''SELECT 1'', DbConnected, DbExecute ''SELECT 1'', DbClosed]"
  let ?calls = "[(?e, ''all projects''), (?e, ''all projects'')]"
  have call: "query_with_cache ?e ''all projects'' ?s
      = (Some \<lparr>sql = ''SELECT 1'', data = [], cache_hit = False, count = 0\<rparr>,
         \<lparr>mock_cache = [''all projects'' \<mapsto> ''SELECT 1''], redis_db = Map.empty\<rparr>, ?t)"
    by (simp add: pipeline_defs)
  have down: "\<not> get_redis_client ?e" by (simp add: get_redis_client_def)
  have all_down: "list_all (\<lambda>c. \<not> get_redis_client (fst c)) ?calls"
    by (simp add: get_redis_client_def)
  from backend_chosen_per_call
         [of ?e "''all projects''" ?s _ _ ?t ?calls ?e Map.empty] call down all_down
  show ?thesis by simp
qed

end
